theory Spec2Isabelle
  imports Main
begin

section \<open>Data model\<close>

text \<open>
  The entities and protocol values that \<open>ProcessX402Request.execute\<close> handles. Their
  declarations (\<open>domain/entities\<close>, \<open>@x402/core/types\<close>) are imported by the use case;
  the fields are the ones the use case and its test suite read and write. Several
  TypeScript types share field names (\<open>network\<close>, \<open>payTo\<close>, \<open>description\<close>, ...); a
  record field is a constant here, so the fields of the entities and of the
  requirement, payload and response values carry a prefix, while \<open>ProcessX402Input\<close>,
  \<open>ResourceConfig\<close> and \<open>ResourceInfo\<close>, which the use case builds itself, keep the
  source's names. An optional field (\<open>f?: string\<close>) is an \<open>option\<close>.
\<close>

record Vendor =
  vendor_id :: string
  vendor_name :: string
  evmAddress :: string
  apiKey :: string

datatype ProductStatus = ACTIVE | INACTIVE

record Product =
  product_id :: string
  product_vendorId :: string
  product_path :: string
  product_price :: string
  product_network :: string
  product_description :: string
  product_mimeType :: string
  product_data :: string
  product_status :: ProductStatus
  product_createdAt :: int

record ResourceInfo =
  url :: string
  description :: string
  mimeType :: string

record ResourceConfig =
  scheme :: string
  network :: string
  price :: string
  payTo :: string
  maxTimeoutSeconds :: "int option"

record PaymentRequirements =
  req_scheme :: string
  req_network :: string
  req_asset :: string
  req_amount :: string
  req_payTo :: string
  req_maxTimeoutSeconds :: int
  req_extra :: "(string \<times> string) list"

record PaymentRequired =
  x402Version :: int
  accepts :: "PaymentRequirements list"
  resource :: ResourceInfo

record PaymentPayload =
  payload_x402Version :: int
  payload_resource :: ResourceInfo
  accepted :: PaymentRequirements
  payload :: "(string \<times> string) list"

record VerifyResponse =
  isValid :: bool
  invalidReason :: "string option"
  verify_payer :: "string option"

record SettleResponse =
  success :: bool
  errorReason :: "string option"
  transaction :: string
  settle_network :: string
  settle_payer :: "string option"

text \<open>
  \<open>ProcessX402Result\<close>: the discriminated union returned by \<open>execute\<close>; the
  constructor is the \<open>type\<close> tag.
\<close>

datatype ProcessX402Result =
    Payment_required PaymentRequired
  | Success SettleResponse Product
  | Verification_failed string
  | Settlement_failed string
  | Not_found string

fun type_of :: "ProcessX402Result \<Rightarrow> string" where
  "type_of (Payment_required _) = ''payment_required''"
| "type_of (Success _ _) = ''success''"
| "type_of (Verification_failed _) = ''verification_failed''"
| "type_of (Settlement_failed _) = ''settlement_failed''"
| "type_of (Not_found _) = ''not_found''"

text \<open>The product an outcome hands to the caller, if any.\<close>

fun released_product :: "ProcessX402Result \<Rightarrow> Product option" where
  "released_product (Success _ product) = Some product"
| "released_product _ = None"

record ProcessX402Input =
  vendorId :: string
  path :: string
  resourceUrl :: string
  paymentHeader :: "string option"


section \<open>Ports, exceptions and the call trace\<close>

text \<open>
  A value thrown by a collaborator (a rejected promise or a synchronous \<open>throw\<close>).
\<close>

datatype thrown = Thrown string

text \<open>
  A method of a collaborator runs against the collaborator's state \<open>'s\<close>: it either
  returns a value or throws, and leaves a new state.
\<close>

type_synonym ('s, 'a) port = "'s \<Rightarrow> (thrown + 'a) \<times> 's"

text \<open>
  The three collaborators injected by the constructor, with the methods that
  \<open>execute\<close> calls.
\<close>

record 's IVendorRepository =
  findById :: "string \<Rightarrow> ('s, Vendor option) port"

record 's IProductRepository =
  findByVendorIdAndPath :: "string \<Rightarrow> string \<Rightarrow> ('s, Product option) port"

record 's IPaymentGateway =
  buildPaymentRequirements :: "ResourceConfig \<Rightarrow> ('s, PaymentRequirements list) port"
  createPaymentRequiredResponse ::
    "PaymentRequirements list \<Rightarrow> ResourceInfo \<Rightarrow> ('s, PaymentRequired) port"
  parsePaymentHeader :: "string \<Rightarrow> ('s, PaymentPayload) port"
  findMatchingRequirements ::
    "PaymentRequirements list \<Rightarrow> PaymentPayload \<Rightarrow> ('s, PaymentRequirements option) port"
  verifyPayment :: "PaymentPayload \<Rightarrow> PaymentRequirements \<Rightarrow> ('s, VerifyResponse) port"
  settlePayment :: "PaymentPayload \<Rightarrow> PaymentRequirements \<Rightarrow> ('s, SettleResponse) port"

record 's ProcessX402Request =
  productRepository :: "'s IProductRepository"
  vendorRepository :: "'s IVendorRepository"
  paymentGateway :: "'s IPaymentGateway"

text \<open>
  The observable effect of \<open>execute\<close> is the sequence of calls it makes on its
  collaborators. Each entry records the method, its arguments and what came back.
\<close>

datatype call =
    FindById string "thrown + Vendor option"
  | FindByVendorIdAndPath string string "thrown + Product option"
  | BuildPaymentRequirements ResourceConfig "thrown + PaymentRequirements list"
  | CreatePaymentRequiredResponse "PaymentRequirements list" ResourceInfo
      "thrown + PaymentRequired"
  | ParsePaymentHeader string "thrown + PaymentPayload"
  | FindMatchingRequirements "PaymentRequirements list" PaymentPayload
      "thrown + PaymentRequirements option"
  | VerifyPayment PaymentPayload PaymentRequirements "thrown + VerifyResponse"
  | SettlePayment PaymentPayload PaymentRequirements "thrown + SettleResponse"

fun is_parsePaymentHeader :: "call \<Rightarrow> bool" where
  "is_parsePaymentHeader (ParsePaymentHeader _ _) = True"
| "is_parsePaymentHeader _ = False"

fun is_findMatchingRequirements :: "call \<Rightarrow> bool" where
  "is_findMatchingRequirements (FindMatchingRequirements _ _ _) = True"
| "is_findMatchingRequirements _ = False"

fun is_verifyPayment :: "call \<Rightarrow> bool" where
  "is_verifyPayment (VerifyPayment _ _ _) = True"
| "is_verifyPayment _ = False"

fun is_settlePayment :: "call \<Rightarrow> bool" where
  "is_settlePayment (SettlePayment _ _ _) = True"
| "is_settlePayment _ = False"

text \<open>What a recorded call threw, if it threw.\<close>

fun outcome_thrown :: "thrown + 'a \<Rightarrow> thrown option" where
  "outcome_thrown (Inl e) = Some e"
| "outcome_thrown (Inr _) = None"

fun threw :: "call \<Rightarrow> thrown option" where
  "threw (FindById _ r) = outcome_thrown r"
| "threw (FindByVendorIdAndPath _ _ r) = outcome_thrown r"
| "threw (BuildPaymentRequirements _ r) = outcome_thrown r"
| "threw (CreatePaymentRequiredResponse _ _ r) = outcome_thrown r"
| "threw (ParsePaymentHeader _ r) = outcome_thrown r"
| "threw (FindMatchingRequirements _ _ r) = outcome_thrown r"
| "threw (VerifyPayment _ _ r) = outcome_thrown r"
| "threw (SettlePayment _ _ r) = outcome_thrown r"

text \<open>
  An \<open>async\<close> computation runs on the trace so far and the collaborators' state.
  \<open>invoke\<close> performs one method call and appends it to the trace; \<open>await\<close> sequences:
  a throw ends the computation with that exception (\<open>execute\<close> has no \<open>try\<close>);
  \<open>resolved\<close> is \<open>return\<close>.
\<close>

type_synonym ('s, 'a) async = "call list \<times> 's \<Rightarrow> (thrown + 'a) \<times> (call list \<times> 's)"

definition invoke :: "(thrown + 'a \<Rightarrow> call) \<Rightarrow> ('s, 'a) port \<Rightarrow> ('s, 'a) async" where
  "invoke record_call method =
     (\<lambda>(calls, s). case method s of (r, s') \<Rightarrow> (r, (calls @ [record_call r], s')))"

definition await :: "('s, 'a) async \<Rightarrow> ('a \<Rightarrow> ('s, 'b) async) \<Rightarrow> ('s, 'b) async" where
  "await m k =
     (\<lambda>w. case m w of (Inl e, w') \<Rightarrow> (Inl e, w') | (Inr a, w') \<Rightarrow> k a w')"

definition resolved :: "'a \<Rightarrow> ('s, 'a) async" where
  "resolved x = (\<lambda>w. (Inr x, w))"

text \<open>
  JavaScript truthiness of \<open>paymentHeader?: string\<close>: \<open>undefined\<close> and the empty
  string are falsy. \<open>truthy\<close> returns the string when it is truthy.
\<close>

fun truthy :: "string option \<Rightarrow> string option" where
  "truthy None = None"
| "truthy (Some h) = (if h = [] then None else Some h)"


section \<open>ProcessX402Request.execute\<close>

text \<open>
  The body of \<open>execute\<close>, statement by statement. Every call on a collaborator,
  awaited or synchronous, is an \<open>invoke\<close>; a \<open>return\<close> is \<open>resolved\<close>. \<open>!vendor\<close>,
  \<open>!product\<close> and \<open>!matchingRequirements\<close> test for \<open>null\<close> and \<open>undefined\<close>, that is
  for \<open>None\<close>; \<open>a ?? b\<close> takes \<open>b\<close> only when \<open>a\<close> is absent, so an empty reason string
  is kept.
\<close>

definition execute :: "'s ProcessX402Request \<Rightarrow> ProcessX402Input \<Rightarrow> ('s, ProcessX402Result) async"
  where
  "execute this input =
     await (invoke (FindById (vendorId input))
              (findById (vendorRepository this) (vendorId input))) (\<lambda>vendor.
     case vendor of
       None \<Rightarrow> resolved (Not_found ''Vendor not found'')
     | Some vendor \<Rightarrow>
     await (invoke (FindByVendorIdAndPath (vendorId input) (path input))
              (findByVendorIdAndPath (productRepository this) (vendorId input) (path input)))
       (\<lambda>product.
     case product of
       None \<Rightarrow> resolved (Not_found ''Product not found'')
     | Some product \<Rightarrow>
     let resourceInfo = \<lparr>url = resourceUrl input,
                         description = product_description product,
                         mimeType = product_mimeType product\<rparr>;
         resourceConfig = \<lparr>scheme = ''exact'',
                           network = product_network product,
                           price = product_price product,
                           payTo = evmAddress vendor,
                           maxTimeoutSeconds = Some 60\<rparr>
     in
     await (invoke (BuildPaymentRequirements resourceConfig)
              (buildPaymentRequirements (paymentGateway this) resourceConfig))
       (\<lambda>requirements.
     case truthy (paymentHeader input) of
       None \<Rightarrow>
         await (invoke (CreatePaymentRequiredResponse requirements resourceInfo)
                  (createPaymentRequiredResponse (paymentGateway this)
                     requirements resourceInfo))
           (\<lambda>paymentRequired. resolved (Payment_required paymentRequired))
     | Some header \<Rightarrow>
     await (invoke (ParsePaymentHeader header)
              (parsePaymentHeader (paymentGateway this) header)) (\<lambda>paymentPayload.
     await (invoke (FindMatchingRequirements requirements paymentPayload)
              (findMatchingRequirements (paymentGateway this) requirements paymentPayload))
       (\<lambda>matchingRequirements.
     case matchingRequirements of
       None \<Rightarrow>
         await (invoke (CreatePaymentRequiredResponse requirements resourceInfo)
                  (createPaymentRequiredResponse (paymentGateway this)
                     requirements resourceInfo))
           (\<lambda>paymentRequired. resolved (Payment_required paymentRequired))
     | Some matchingRequirements \<Rightarrow>
     await (invoke (VerifyPayment paymentPayload matchingRequirements)
              (verifyPayment (paymentGateway this) paymentPayload matchingRequirements))
       (\<lambda>verifyResult.
     if \<not> isValid verifyResult then
       resolved (Verification_failed
         (case invalidReason verifyResult of
            None \<Rightarrow> ''Unknown verification error'' | Some reason \<Rightarrow> reason))
     else
     await (invoke (SettlePayment paymentPayload matchingRequirements)
              (settlePayment (paymentGateway this) paymentPayload matchingRequirements))
       (\<lambda>settleResult.
     if \<not> success settleResult then
       resolved (Settlement_failed
         (case errorReason settleResult of
            None \<Rightarrow> ''Unknown settlement error'' | Some reason \<Rightarrow> reason))
     else
       resolved (Success settleResult product))))))))"

text \<open>One invocation: a fresh trace, the collaborators in state \<open>s\<close>.\<close>

definition run :: "'s ProcessX402Request \<Rightarrow> ProcessX402Input \<Rightarrow> 's
    \<Rightarrow> (thrown + ProcessX402Result) \<times> call list \<times> 's" where
  "run this input s = execute this input ([], s)"


section \<open>Deterministic lookups and builds\<close>

text \<open>
  The operations that \<open>execute\<close> calls before \<open>verifyPayment\<close> (the two catalog
  lookups, building the requirements, assembling the challenge, decoding the header
  and selecting the matching requirement) are deterministic on a set \<open>I\<close> of
  collaborator states when, on every state of \<open>I\<close>, each returns or throws what its
  arguments alone determine, and leaves a state of \<open>I\<close>.
\<close>

definition deterministic :: "'s ProcessX402Request \<Rightarrow> ('s \<Rightarrow> bool) \<Rightarrow> bool" where
  "deterministic this I \<longleftrightarrow>
     (\<forall>s s'. I s \<and> I s' \<longrightarrow>
        (\<forall>ident.
           fst (findById (vendorRepository this) ident s) =
             fst (findById (vendorRepository this) ident s') \<and>
           I (snd (findById (vendorRepository this) ident s))) \<and>
        (\<forall>vid pth.
           fst (findByVendorIdAndPath (productRepository this) vid pth s) =
             fst (findByVendorIdAndPath (productRepository this) vid pth s') \<and>
           I (snd (findByVendorIdAndPath (productRepository this) vid pth s))) \<and>
        (\<forall>config.
           fst (buildPaymentRequirements (paymentGateway this) config s) =
             fst (buildPaymentRequirements (paymentGateway this) config s') \<and>
           I (snd (buildPaymentRequirements (paymentGateway this) config s))) \<and>
        (\<forall>requirements resourceInfo.
           fst (createPaymentRequiredResponse (paymentGateway this) requirements resourceInfo s) =
             fst (createPaymentRequiredResponse (paymentGateway this) requirements resourceInfo s') \<and>
           I (snd (createPaymentRequiredResponse (paymentGateway this)
                     requirements resourceInfo s))) \<and>
        (\<forall>header.
           fst (parsePaymentHeader (paymentGateway this) header s) =
             fst (parsePaymentHeader (paymentGateway this) header s') \<and>
           I (snd (parsePaymentHeader (paymentGateway this) header s))) \<and>
        (\<forall>requirements paymentPayload.
           fst (findMatchingRequirements (paymentGateway this) requirements paymentPayload s) =
             fst (findMatchingRequirements (paymentGateway this) requirements paymentPayload s') \<and>
           I (snd (findMatchingRequirements (paymentGateway this)
                     requirements paymentPayload s))))"


section \<open>The collaborators of the test suite\<close>

text \<open>
  \<open>tests/application/ProcessX402Request.test.ts\<close> runs the use case against two
  in-memory repositories and \<open>MockPaymentGateway\<close>. A JavaScript \<open>Map\<close> keeps its
  entries in insertion order: it is an association list with distinct keys, \<open>get\<close> is
  \<open>map_of\<close>, and \<open>set\<close> replaces the value of a present key in place or appends.
\<close>

fun Map_set :: "'k \<Rightarrow> 'v \<Rightarrow> ('k \<times> 'v) list \<Rightarrow> ('k \<times> 'v) list" where
  "Map_set k v [] = [(k, v)]"
| "Map_set k v ((k', v') # m) = (if k' = k then (k, v) # m else (k', v') # Map_set k v m)"

record harness =
  vendors :: "(string \<times> Vendor) list"
  products :: "(string \<times> Product) list"
  verifyResult :: VerifyResponse
  settleResult :: SettleResponse
  builtRequirements :: "PaymentRequirements option"

definition InMemoryVendorRepository_save :: "Vendor \<Rightarrow> (harness, Vendor) port" where
  "InMemoryVendorRepository_save vendor s =
     (Inr vendor, s\<lparr>vendors := Map_set (vendor_id vendor) vendor (vendors s)\<rparr>)"

definition InMemoryVendorRepository_findById :: "string \<Rightarrow> (harness, Vendor option) port" where
  "InMemoryVendorRepository_findById ident s = (Inr (map_of (vendors s) ident), s)"

definition InMemoryProductRepository_save :: "Product \<Rightarrow> (harness, Product) port" where
  "InMemoryProductRepository_save product s =
     (Inr product, s\<lparr>products := Map_set (product_id product) product (products s)\<rparr>)"

definition InMemoryProductRepository_findByVendorIdAndPath ::
    "string \<Rightarrow> string \<Rightarrow> (harness, Product option) port" where
  "InMemoryProductRepository_findByVendorIdAndPath vid pth s =
     (Inr (find (\<lambda>product. product_vendorId product = vid \<and> product_path product = pth)
             (map snd (products s))), s)"

definition MockPaymentGateway_buildPaymentRequirements ::
    "ResourceConfig \<Rightarrow> (harness, PaymentRequirements list) port" where
  "MockPaymentGateway_buildPaymentRequirements config s =
     (let built = \<lparr>req_scheme = scheme config,
                    req_network = network config,
                    req_asset = ''0x036CbD53842c5426634e7929541eC2318f3dCF7e'',
                    req_amount = ''1000'',
                    req_payTo = payTo config,
                    req_maxTimeoutSeconds =
                      (case maxTimeoutSeconds config of None \<Rightarrow> 60 | Some t \<Rightarrow> t),
                    req_extra = []\<rparr>
      in (Inr [built], s\<lparr>builtRequirements := Some built\<rparr>))"

definition MockPaymentGateway_createPaymentRequiredResponse ::
    "PaymentRequirements list \<Rightarrow> ResourceInfo \<Rightarrow> (harness, PaymentRequired) port" where
  "MockPaymentGateway_createPaymentRequiredResponse requirements resourceInfo s =
     (Inr \<lparr>x402Version = 2, accepts = requirements, resource = resourceInfo\<rparr>, s)"

definition MockPaymentGateway_verifyPayment ::
    "PaymentPayload \<Rightarrow> PaymentRequirements \<Rightarrow> (harness, VerifyResponse) port" where
  "MockPaymentGateway_verifyPayment paymentPayload requirements s = (Inr (verifyResult s), s)"

definition MockPaymentGateway_settlePayment ::
    "PaymentPayload \<Rightarrow> PaymentRequirements \<Rightarrow> (harness, SettleResponse) port" where
  "MockPaymentGateway_settlePayment paymentPayload requirements s = (Inr (settleResult s), s)"

text \<open>
  \<open>availableRequirements.find(r => r.scheme === accepted.scheme && r.network ===
  accepted.network)\<close>: the first entry equal on both fields.
\<close>

definition scheme_network_match :: "PaymentPayload \<Rightarrow> PaymentRequirements \<Rightarrow> bool" where
  "scheme_network_match paymentPayload r \<longleftrightarrow>
     req_scheme r = req_scheme (accepted paymentPayload) \<and>
     req_network r = req_network (accepted paymentPayload)"

definition MockPaymentGateway_findMatchingRequirements ::
    "PaymentRequirements list \<Rightarrow> PaymentPayload \<Rightarrow> (harness, PaymentRequirements option) port"
  where
  "MockPaymentGateway_findMatchingRequirements availableRequirements paymentPayload s =
     (Inr (find (scheme_network_match paymentPayload) availableRequirements), s)"

text \<open>
  \<open>parsePaymentHeader\<close> is \<open>JSON.parse(Buffer.from(header, "base64").toString("utf-8"))\<close>.
  \<open>Buffer\<close> and \<open>JSON\<close> belong to the runtime, so what they compute is the parameter
  \<open>decode\<close>: the parsed payload, or the \<open>SyntaxError\<close> that \<open>JSON.parse\<close> throws.
\<close>

definition MockPaymentGateway_parsePaymentHeader ::
    "(string \<Rightarrow> thrown + PaymentPayload) \<Rightarrow> string \<Rightarrow> (harness, PaymentPayload) port" where
  "MockPaymentGateway_parsePaymentHeader decode header s = (decode header, s)"

definition MockPaymentGateway :: "(string \<Rightarrow> thrown + PaymentPayload) \<Rightarrow> harness IPaymentGateway"
  where
  "MockPaymentGateway decode =
     \<lparr>buildPaymentRequirements = MockPaymentGateway_buildPaymentRequirements,
      createPaymentRequiredResponse = MockPaymentGateway_createPaymentRequiredResponse,
      parsePaymentHeader = MockPaymentGateway_parsePaymentHeader decode,
      findMatchingRequirements = MockPaymentGateway_findMatchingRequirements,
      verifyPayment = MockPaymentGateway_verifyPayment,
      settlePayment = MockPaymentGateway_settlePayment\<rparr>"

text \<open>\<open>new ProcessX402Request(productRepository, vendorRepository, paymentGateway)\<close>.\<close>

definition processX402Request ::
    "(string \<Rightarrow> thrown + PaymentPayload) \<Rightarrow> harness ProcessX402Request" where
  "processX402Request decode =
     \<lparr>productRepository =
        \<lparr>findByVendorIdAndPath = InMemoryProductRepository_findByVendorIdAndPath\<rparr>,
      vendorRepository = \<lparr>findById = InMemoryVendorRepository_findById\<rparr>,
      paymentGateway = MockPaymentGateway decode\<rparr>"

subsection \<open>The scenario of \<open>beforeEach\<close>\<close>

text \<open>
  \<open>Vendor.create\<close> and \<open>Product.create\<close> generate the ids, the API key and the
  creation time; the scenario fixes them. The product takes the defaults the entity
  tests show (\<open>eip155:84532\<close>, \<open>application/json\<close>, \<open>ACTIVE\<close>).
\<close>

definition testVendor :: Vendor where
  "testVendor = \<lparr>vendor_id = ''vendor-1'', vendor_name = ''Test Vendor'',
     evmAddress = ''0x1234567890123456789012345678901234567890'',
     apiKey = ''key-1''\<rparr>"

definition testProduct :: Product where
  "testProduct = \<lparr>product_id = ''product-1'', product_vendorId = ''vendor-1'',
     product_path = ''weather'', product_price = ''$0.001'',
     product_network = ''eip155:84532'', product_description = ''Weather API'',
     product_mimeType = ''application/json'',
     product_data = ''{\"weather\":\"sunny\",\"temp\":25}'',
     product_status = ACTIVE, product_createdAt = 0\<rparr>"

text \<open>The fields a fresh \<open>MockPaymentGateway\<close> and two empty repositories start with.\<close>

definition fresh :: harness where
  "fresh = \<lparr>vendors = [], products = [],
     verifyResult = \<lparr>isValid = True, invalidReason = None, verify_payer = Some ''0x1234''\<rparr>,
     settleResult = \<lparr>success = True, errorReason = None, transaction = ''0xabc123'',
                     settle_network = ''eip155:84532'', settle_payer = Some ''0x1234''\<rparr>,
     builtRequirements = None\<rparr>"

definition beforeEach :: harness where
  "beforeEach =
     snd (InMemoryProductRepository_save testProduct
            (snd (InMemoryVendorRepository_save testVendor fresh)))"

text \<open>
  The requirement the tests put into their payment payload (the result of
  \<open>buildPaymentRequirements\<close> for the test vendor with no timeout given), the payload,
  and the decoder on the headers of the scenarios: the header that encodes the
  payload, a header that encodes a payload claiming another network, and \<open>%%%\<close>,
  which holds no base64 digit, decodes to the empty text and makes \<open>JSON.parse\<close>
  throw. Headers outside the table do not occur.
\<close>

definition testRequirements :: PaymentRequirements where
  "testRequirements = \<lparr>req_scheme = ''exact'', req_network = ''eip155:84532'',
     req_asset = ''0x036CbD53842c5426634e7929541eC2318f3dCF7e'', req_amount = ''1000'',
     req_payTo = ''0x1234567890123456789012345678901234567890'',
     req_maxTimeoutSeconds = 60, req_extra = []\<rparr>"

definition testPaymentPayload :: PaymentPayload where
  "testPaymentPayload = \<lparr>payload_x402Version = 2,
     payload_resource = \<lparr>url = ''http://localhost:3000/vendor1/weather'',
                          description = ''Weather API'', mimeType = ''application/json''\<rparr>,
     accepted = testRequirements,
     payload = [(''signature'', ''0xvalidSignature'')]\<rparr>"

definition stalePaymentPayload :: PaymentPayload where
  "stalePaymentPayload = testPaymentPayload\<lparr>accepted := testRequirements\<lparr>req_network := ''eip155:1''\<rparr>\<rparr>"

definition testDecode :: "string \<Rightarrow> thrown + PaymentPayload" where
  "testDecode header =
     (if header = ''base64(paymentPayload)'' then Inr testPaymentPayload
      else if header = ''base64(stalePaymentPayload)'' then Inr stalePaymentPayload
      else Inl (Thrown ''SyntaxError: Unexpected end of JSON input''))"

definition testInput :: ProcessX402Input where
  "testInput = \<lparr>vendorId = ''vendor-1'', path = ''weather'',
     resourceUrl = ''http://localhost:3000/vendor1/weather'', paymentHeader = None\<rparr>"


text \<open>
  The requests of the scenarios: with the header that encodes the test's payload,
  with a header claiming a network the product is not offered on, and with an
  undecodable header; and the state in which \<open>buildPaymentRequirements\<close> has run.
\<close>

definition payingInput :: ProcessX402Input where
  "payingInput = testInput\<lparr>paymentHeader := Some ''base64(paymentPayload)''\<rparr>"

definition staleInput :: ProcessX402Input where
  "staleInput = testInput\<lparr>paymentHeader := Some ''base64(stalePaymentPayload)''\<rparr>"

definition malformedInput :: ProcessX402Input where
  "malformedInput = testInput\<lparr>paymentHeader := Some ''%%%''\<rparr>"

definition testResourceInfo :: ResourceInfo where
  "testResourceInfo = \<lparr>url = ''http://localhost:3000/vendor1/weather'',
     description = ''Weather API'', mimeType = ''application/json''\<rparr>"

definition testPaymentRequired :: PaymentRequired where
  "testPaymentRequired =
     \<lparr>x402Version = 2, accepts = [testRequirements], resource = testResourceInfo\<rparr>"

definition built :: "harness \<Rightarrow> harness" where
  "built s = s\<lparr>builtRequirements := Some testRequirements\<rparr>"

text \<open>The gateway results that the failure tests install.\<close>

definition invalidSignature :: VerifyResponse where
  "invalidSignature =
     \<lparr>isValid = False, invalidReason = Some ''Invalid signature'', verify_payer = None\<rparr>"

definition insufficientFunds :: SettleResponse where
  "insufficientFunds =
     \<lparr>success = False, errorReason = Some ''Insufficient funds'', transaction = [],
      settle_network = ''eip155:84532'', settle_payer = None\<rparr>"


text \<open>The states whose catalog is the one \<open>beforeEach\<close> saves.\<close>

definition seeded :: "harness \<Rightarrow> bool" where
  "seeded s \<longleftrightarrow> vendors s = vendors beforeEach \<and> products s = products beforeEach"


section \<open>Properties of \<open>execute\<close>\<close>

lemmas exec_defs = run_def execute_def await_def invoke_def resolved_def Let_def

text \<open>
  Unfolding the collaborators of the test suite and its scenario.
\<close>

lemmas harness_defs = Let_def processX402Request_def MockPaymentGateway_def
  InMemoryVendorRepository_findById_def InMemoryProductRepository_findByVendorIdAndPath_def
  MockPaymentGateway_buildPaymentRequirements_def
  MockPaymentGateway_createPaymentRequiredResponse_def
  MockPaymentGateway_parsePaymentHeader_def MockPaymentGateway_findMatchingRequirements_def
  MockPaymentGateway_verifyPayment_def MockPaymentGateway_settlePayment_def

lemmas scenario_defs = beforeEach_def fresh_def testVendor_def testProduct_def
  InMemoryVendorRepository_save_def InMemoryProductRepository_save_def testInput_def
  testDecode_def testPaymentPayload_def stalePaymentPayload_def testRequirements_def
  scheme_network_match_def payingInput_def staleInput_def malformedInput_def
  testResourceInfo_def testPaymentRequired_def built_def invalidSignature_def
  insufficientFunds_def

subsection \<open>Running \<open>execute\<close> along one path\<close>

text \<open>
  Each lemma fixes what the collaborators return, call after call, and gives the
  outcome, the calls made and the final state.
\<close>

lemma run_vendor_missing:
  assumes "findById (vendorRepository this) (vendorId input) s = (Inr None, s1)"
  shows "run this input s =
    (Inr (Not_found ''Vendor not found''), [FindById (vendorId input) (Inr None)], s1)"
  using assms by (simp add: exec_defs)

lemma run_product_missing:
  assumes "findById (vendorRepository this) (vendorId input) s = (Inr (Some vendor), s1)"
    and "findByVendorIdAndPath (productRepository this) (vendorId input) (path input) s1
           = (Inr None, s2)"
  shows "run this input s =
    (Inr (Not_found ''Product not found''),
     [FindById (vendorId input) (Inr (Some vendor)),
      FindByVendorIdAndPath (vendorId input) (path input) (Inr None)], s2)"
  using assms by (simp add: exec_defs)

lemma run_no_proof:
  assumes "truthy (paymentHeader input) = None"
    and "findById (vendorRepository this) (vendorId input) s = (Inr (Some vendor), s1)"
    and "findByVendorIdAndPath (productRepository this) (vendorId input) (path input) s1
           = (Inr (Some product), s2)"
    and "buildPaymentRequirements (paymentGateway this)
           \<lparr>scheme = ''exact'', network = product_network product,
            price = product_price product, payTo = evmAddress vendor,
            maxTimeoutSeconds = Some 60\<rparr> s2 = (Inr requirements, s3)"
    and "createPaymentRequiredResponse (paymentGateway this) requirements
           \<lparr>url = resourceUrl input, description = product_description product,
            mimeType = product_mimeType product\<rparr> s3 = (Inr paymentRequired, s4)"
  shows "run this input s =
    (Inr (Payment_required paymentRequired),
     [FindById (vendorId input) (Inr (Some vendor)),
      FindByVendorIdAndPath (vendorId input) (path input) (Inr (Some product)),
      BuildPaymentRequirements
        \<lparr>scheme = ''exact'', network = product_network product,
         price = product_price product, payTo = evmAddress vendor,
         maxTimeoutSeconds = Some 60\<rparr> (Inr requirements),
      CreatePaymentRequiredResponse requirements
        \<lparr>url = resourceUrl input, description = product_description product,
         mimeType = product_mimeType product\<rparr> (Inr paymentRequired)], s4)"
  using assms by (simp add: exec_defs)

lemma run_no_match:
  assumes "truthy (paymentHeader input) = Some header"
    and "findById (vendorRepository this) (vendorId input) s = (Inr (Some vendor), s1)"
    and "findByVendorIdAndPath (productRepository this) (vendorId input) (path input) s1
           = (Inr (Some product), s2)"
    and "buildPaymentRequirements (paymentGateway this)
           \<lparr>scheme = ''exact'', network = product_network product,
            price = product_price product, payTo = evmAddress vendor,
            maxTimeoutSeconds = Some 60\<rparr> s2 = (Inr requirements, s3)"
    and "parsePaymentHeader (paymentGateway this) header s3 = (Inr paymentPayload, s4)"
    and "findMatchingRequirements (paymentGateway this) requirements paymentPayload s4
           = (Inr None, s5)"
    and "createPaymentRequiredResponse (paymentGateway this) requirements
           \<lparr>url = resourceUrl input, description = product_description product,
            mimeType = product_mimeType product\<rparr> s5 = (Inr paymentRequired, s6)"
  shows "run this input s =
    (Inr (Payment_required paymentRequired),
     [FindById (vendorId input) (Inr (Some vendor)),
      FindByVendorIdAndPath (vendorId input) (path input) (Inr (Some product)),
      BuildPaymentRequirements
        \<lparr>scheme = ''exact'', network = product_network product,
         price = product_price product, payTo = evmAddress vendor,
         maxTimeoutSeconds = Some 60\<rparr> (Inr requirements),
      ParsePaymentHeader header (Inr paymentPayload),
      FindMatchingRequirements requirements paymentPayload (Inr None),
      CreatePaymentRequiredResponse requirements
        \<lparr>url = resourceUrl input, description = product_description product,
         mimeType = product_mimeType product\<rparr> (Inr paymentRequired)], s6)"
  using assms by (simp add: exec_defs)

text \<open>
  A trace holds a \<open>settlePayment\<close> call only when it is the trace of the paying path.
\<close>

lemma settle_shape:
  assumes "run this input s = (r, calls, s')"
  shows "(\<forall>c\<in>set calls. \<not> is_settlePayment c) \<or>
    (\<exists>vendor product requirements header paymentPayload matchingRequirements
        verifyResponse settled.
       calls =
         [FindById (vendorId input) (Inr (Some vendor)),
          FindByVendorIdAndPath (vendorId input) (path input) (Inr (Some product)),
          BuildPaymentRequirements
            \<lparr>scheme = ''exact'', network = product_network product,
             price = product_price product, payTo = evmAddress vendor,
             maxTimeoutSeconds = Some 60\<rparr> (Inr requirements),
          ParsePaymentHeader header (Inr paymentPayload),
          FindMatchingRequirements requirements paymentPayload
            (Inr (Some matchingRequirements)),
          VerifyPayment paymentPayload matchingRequirements (Inr verifyResponse),
          SettlePayment paymentPayload matchingRequirements settled] \<and>
       isValid verifyResponse)"
  using assms unfolding exec_defs
  by (auto split: prod.splits sum.splits option.splits if_splits)

text \<open>
  The four ways in which a run ends with \<open>not_found\<close> or \<open>payment_required\<close>.
\<close>

lemma unpaid_cases:
  assumes "run this input s = (Inr outcome, calls, s')"
    and "type_of outcome = ''not_found'' \<or> type_of outcome = ''payment_required''"
  obtains
    (vendor_missing)
      "findById (vendorRepository this) (vendorId input) s = (Inr None, s')"
  | (product_missing) vendor s1 where
      "findById (vendorRepository this) (vendorId input) s = (Inr (Some vendor), s1)"
      "findByVendorIdAndPath (productRepository this) (vendorId input) (path input) s1
         = (Inr None, s')"
  | (no_proof) vendor s1 product s2 requirements s3 paymentRequired where
      "truthy (paymentHeader input) = None"
      "findById (vendorRepository this) (vendorId input) s = (Inr (Some vendor), s1)"
      "findByVendorIdAndPath (productRepository this) (vendorId input) (path input) s1
         = (Inr (Some product), s2)"
      "buildPaymentRequirements (paymentGateway this)
         \<lparr>scheme = ''exact'', network = product_network product,
          price = product_price product, payTo = evmAddress vendor,
          maxTimeoutSeconds = Some 60\<rparr> s2 = (Inr requirements, s3)"
      "createPaymentRequiredResponse (paymentGateway this) requirements
         \<lparr>url = resourceUrl input, description = product_description product,
          mimeType = product_mimeType product\<rparr> s3 = (Inr paymentRequired, s')"
  | (no_match) header vendor s1 product s2 requirements s3 paymentPayload s4 s5
      paymentRequired where
      "truthy (paymentHeader input) = Some header"
      "findById (vendorRepository this) (vendorId input) s = (Inr (Some vendor), s1)"
      "findByVendorIdAndPath (productRepository this) (vendorId input) (path input) s1
         = (Inr (Some product), s2)"
      "buildPaymentRequirements (paymentGateway this)
         \<lparr>scheme = ''exact'', network = product_network product,
          price = product_price product, payTo = evmAddress vendor,
          maxTimeoutSeconds = Some 60\<rparr> s2 = (Inr requirements, s3)"
      "parsePaymentHeader (paymentGateway this) header s3 = (Inr paymentPayload, s4)"
      "findMatchingRequirements (paymentGateway this) requirements paymentPayload s4
         = (Inr None, s5)"
      "createPaymentRequiredResponse (paymentGateway this) requirements
         \<lparr>url = resourceUrl input, description = product_description product,
          mimeType = product_mimeType product\<rparr> s5 = (Inr paymentRequired, s')"
  using assms unfolding exec_defs
  by (auto split: prod.splits sum.splits option.splits if_splits)

lemma unpaid_calls:
  assumes "run this input s = (Inr outcome, calls, s')"
    and "type_of outcome = ''not_found'' \<or> type_of outcome = ''payment_required''"
  shows "\<forall>c\<in>set calls. \<not> is_verifyPayment c \<and> \<not> is_settlePayment c"
  using assms unfolding exec_defs
  by (auto split: prod.splits sum.splits option.splits if_splits)

subsection \<open>Deterministic collaborators\<close>

lemma deterministic_results:
  assumes det: "deterministic this I" and s: "I s" and s': "I s'"
  shows "fst (findById (vendorRepository this) ident s) =
           fst (findById (vendorRepository this) ident s')"
    and "fst (findByVendorIdAndPath (productRepository this) vid pth s) =
           fst (findByVendorIdAndPath (productRepository this) vid pth s')"
    and "fst (buildPaymentRequirements (paymentGateway this) config s) =
           fst (buildPaymentRequirements (paymentGateway this) config s')"
    and "fst (createPaymentRequiredResponse (paymentGateway this) requirements resourceInfo s) =
           fst (createPaymentRequiredResponse (paymentGateway this) requirements resourceInfo s')"
    and "fst (parsePaymentHeader (paymentGateway this) header s) =
           fst (parsePaymentHeader (paymentGateway this) header s')"
    and "fst (findMatchingRequirements (paymentGateway this) requirements paymentPayload s) =
           fst (findMatchingRequirements (paymentGateway this) requirements paymentPayload s')"
proof -
  note all = det [unfolded deterministic_def, THEN spec, THEN spec, THEN mp, OF conjI, OF s s']
  from all show "fst (findById (vendorRepository this) ident s) =
           fst (findById (vendorRepository this) ident s')" by simp
  from all show "fst (findByVendorIdAndPath (productRepository this) vid pth s) =
           fst (findByVendorIdAndPath (productRepository this) vid pth s')" by simp
  from all show "fst (buildPaymentRequirements (paymentGateway this) config s) =
           fst (buildPaymentRequirements (paymentGateway this) config s')" by simp
  from all show "fst (createPaymentRequiredResponse (paymentGateway this) requirements resourceInfo s) =
           fst (createPaymentRequiredResponse (paymentGateway this) requirements resourceInfo s')" by simp
  from all show "fst (parsePaymentHeader (paymentGateway this) header s) =
           fst (parsePaymentHeader (paymentGateway this) header s')" by simp
  from all show "fst (findMatchingRequirements (paymentGateway this) requirements paymentPayload s) =
           fst (findMatchingRequirements (paymentGateway this) requirements paymentPayload s')" by simp
qed

lemma deterministic_states:
  assumes det: "deterministic this I" and s: "I s"
  shows "I (snd (findById (vendorRepository this) ident s))"
    and "I (snd (findByVendorIdAndPath (productRepository this) vid pth s))"
    and "I (snd (buildPaymentRequirements (paymentGateway this) config s))"
    and "I (snd (createPaymentRequiredResponse (paymentGateway this) requirements resourceInfo s))"
    and "I (snd (parsePaymentHeader (paymentGateway this) header s))"
    and "I (snd (findMatchingRequirements (paymentGateway this) requirements paymentPayload s))"
proof -
  note all = det [unfolded deterministic_def, THEN spec, THEN spec, THEN mp, OF conjI, OF s s]
  from all show "I (snd (findById (vendorRepository this) ident s))" by simp
  from all show "I (snd (findByVendorIdAndPath (productRepository this) vid pth s))" by simp
  from all show "I (snd (buildPaymentRequirements (paymentGateway this) config s))" by simp
  from all show "I (snd (createPaymentRequiredResponse (paymentGateway this) requirements resourceInfo s))" by simp
  from all show "I (snd (parsePaymentHeader (paymentGateway this) header s))" by simp
  from all show "I (snd (findMatchingRequirements (paymentGateway this) requirements paymentPayload s))" by simp
qed

text \<open>
  Replaying a call on another state of \<open>I\<close>: the operation returns the same result,
  and both runs stay within \<open>I\<close>.
\<close>

lemma replay_findById:
  assumes det: "deterministic this I" and x: "I x" and y: "I y"
    and call: "findById (vendorRepository this) ident x = (r, x1)" (is "?m x = _")
  shows "I x1"
    and "findById (vendorRepository this) ident y
           = (r, snd (findById (vendorRepository this) ident y))"
    and "I (snd (findById (vendorRepository this) ident y))"
proof -
  have "fst (?m x) = fst (?m y)" by (rule deterministic_results(1) [OF det x y])
  moreover have "I (snd (?m x))" by (rule deterministic_states(1) [OF det x])
  moreover have "I (snd (?m y))" by (rule deterministic_states(1) [OF det y])
  ultimately show "I x1" and "?m y = (r, snd (?m y))" and "I (snd (?m y))"
    using call by (simp_all add: prod_eq_iff)
qed

lemma replay_findByVendorIdAndPath:
  assumes det: "deterministic this I" and x: "I x" and y: "I y"
    and call: "findByVendorIdAndPath (productRepository this) vid pth x = (r, x1)" (is "?m x = _")
  shows "I x1"
    and "findByVendorIdAndPath (productRepository this) vid pth y
           = (r, snd (findByVendorIdAndPath (productRepository this) vid pth y))"
    and "I (snd (findByVendorIdAndPath (productRepository this) vid pth y))"
proof -
  have "fst (?m x) = fst (?m y)" by (rule deterministic_results(2) [OF det x y])
  moreover have "I (snd (?m x))" by (rule deterministic_states(2) [OF det x])
  moreover have "I (snd (?m y))" by (rule deterministic_states(2) [OF det y])
  ultimately show "I x1" and "?m y = (r, snd (?m y))" and "I (snd (?m y))"
    using call by (simp_all add: prod_eq_iff)
qed

lemma replay_buildPaymentRequirements:
  assumes det: "deterministic this I" and x: "I x" and y: "I y"
    and call: "buildPaymentRequirements (paymentGateway this) config x = (r, x1)" (is "?m x = _")
  shows "I x1"
    and "buildPaymentRequirements (paymentGateway this) config y
           = (r, snd (buildPaymentRequirements (paymentGateway this) config y))"
    and "I (snd (buildPaymentRequirements (paymentGateway this) config y))"
proof -
  have "fst (?m x) = fst (?m y)" by (rule deterministic_results(3) [OF det x y])
  moreover have "I (snd (?m x))" by (rule deterministic_states(3) [OF det x])
  moreover have "I (snd (?m y))" by (rule deterministic_states(3) [OF det y])
  ultimately show "I x1" and "?m y = (r, snd (?m y))" and "I (snd (?m y))"
    using call by (simp_all add: prod_eq_iff)
qed

lemma replay_createPaymentRequiredResponse:
  assumes det: "deterministic this I" and x: "I x" and y: "I y"
    and call: "createPaymentRequiredResponse (paymentGateway this) requirements resourceInfo x = (r, x1)" (is "?m x = _")
  shows "I x1"
    and "createPaymentRequiredResponse (paymentGateway this) requirements resourceInfo y
           = (r, snd (createPaymentRequiredResponse (paymentGateway this) requirements resourceInfo y))"
    and "I (snd (createPaymentRequiredResponse (paymentGateway this) requirements resourceInfo y))"
proof -
  have "fst (?m x) = fst (?m y)" by (rule deterministic_results(4) [OF det x y])
  moreover have "I (snd (?m x))" by (rule deterministic_states(4) [OF det x])
  moreover have "I (snd (?m y))" by (rule deterministic_states(4) [OF det y])
  ultimately show "I x1" and "?m y = (r, snd (?m y))" and "I (snd (?m y))"
    using call by (simp_all add: prod_eq_iff)
qed

lemma replay_parsePaymentHeader:
  assumes det: "deterministic this I" and x: "I x" and y: "I y"
    and call: "parsePaymentHeader (paymentGateway this) header x = (r, x1)" (is "?m x = _")
  shows "I x1"
    and "parsePaymentHeader (paymentGateway this) header y
           = (r, snd (parsePaymentHeader (paymentGateway this) header y))"
    and "I (snd (parsePaymentHeader (paymentGateway this) header y))"
proof -
  have "fst (?m x) = fst (?m y)" by (rule deterministic_results(5) [OF det x y])
  moreover have "I (snd (?m x))" by (rule deterministic_states(5) [OF det x])
  moreover have "I (snd (?m y))" by (rule deterministic_states(5) [OF det y])
  ultimately show "I x1" and "?m y = (r, snd (?m y))" and "I (snd (?m y))"
    using call by (simp_all add: prod_eq_iff)
qed

lemma replay_findMatchingRequirements:
  assumes det: "deterministic this I" and x: "I x" and y: "I y"
    and call: "findMatchingRequirements (paymentGateway this) requirements paymentPayload x = (r, x1)" (is "?m x = _")
  shows "I x1"
    and "findMatchingRequirements (paymentGateway this) requirements paymentPayload y
           = (r, snd (findMatchingRequirements (paymentGateway this) requirements paymentPayload y))"
    and "I (snd (findMatchingRequirements (paymentGateway this) requirements paymentPayload y))"
proof -
  have "fst (?m x) = fst (?m y)" by (rule deterministic_results(6) [OF det x y])
  moreover have "I (snd (?m x))" by (rule deterministic_states(6) [OF det x])
  moreover have "I (snd (?m y))" by (rule deterministic_states(6) [OF det y])
  ultimately show "I x1" and "?m y = (r, snd (?m y))" and "I (snd (?m y))"
    using call by (simp_all add: prod_eq_iff)
qed

lemma unpaid_replay:
  assumes det: "deterministic this I" and x: "I x" and y: "I y"
    and first: "run this input x = (Inr outcome, calls, x')"
    and unpaid: "type_of outcome = ''not_found'' \<or> type_of outcome = ''payment_required''"
  shows "I x' \<and> (\<exists>y'. run this input y = (Inr outcome, calls, y'))"
  using first unpaid
proof (cases rule: unpaid_cases)
  case vendor_missing
  note v = replay_findById [OF det x y vendor_missing]
  from first run_vendor_missing [OF vendor_missing] run_vendor_missing [OF v(2)] v(1)
  show ?thesis by simp
next
  case (product_missing vendor s1)
  note v = replay_findById [OF det x y product_missing(1)]
  note p = replay_findByVendorIdAndPath [OF det v(1) v(3) product_missing(2)]
  from first run_product_missing [OF product_missing] run_product_missing [OF v(2) p(2)] p(1)
  show ?thesis by simp
next
  case (no_proof vendor s1 product s2 requirements s3 paymentRequired)
  note v = replay_findById [OF det x y no_proof(2)]
  note p = replay_findByVendorIdAndPath [OF det v(1) v(3) no_proof(3)]
  note b = replay_buildPaymentRequirements [OF det p(1) p(3) no_proof(4)]
  note c = replay_createPaymentRequiredResponse [OF det b(1) b(3) no_proof(5)]
  from first run_no_proof [OF no_proof]
    run_no_proof [OF no_proof(1) v(2) p(2) b(2) c(2)] c(1)
  show ?thesis by simp
next
  case (no_match header vendor s1 product s2 requirements s3 paymentPayload s4 s5
      paymentRequired)
  note v = replay_findById [OF det x y no_match(2)]
  note p = replay_findByVendorIdAndPath [OF det v(1) v(3) no_match(3)]
  note b = replay_buildPaymentRequirements [OF det p(1) p(3) no_match(4)]
  note h = replay_parsePaymentHeader [OF det b(1) b(3) no_match(5)]
  note m = replay_findMatchingRequirements [OF det h(1) h(3) no_match(6)]
  note c = replay_createPaymentRequiredResponse [OF det m(1) m(3) no_match(7)]
  from first run_no_match [OF no_match]
    run_no_match [OF no_match(1) v(2) p(2) b(2) h(2) m(2) c(2)] c(1)
  show ?thesis by simp
qed

subsection \<open>The collaborators of the test suite, call by call\<close>

lemma seeded_scenarios:
  "seeded beforeEach"
  "seeded (beforeEach\<lparr>verifyResult := v\<rparr>)"
  "seeded (beforeEach\<lparr>settleResult := t\<rparr>)"
  by (simp_all add: seeded_def)

lemma paying_header: "truthy (paymentHeader payingInput) = Some ''base64(paymentPayload)''"
  by (simp add: scenario_defs)

lemma paying_vendor:
  "seeded s \<Longrightarrow> findById (vendorRepository (processX402Request testDecode))
     (vendorId payingInput) s = (Inr (Some testVendor), s)"
  by (simp add: seeded_def harness_defs scenario_defs)

lemma paying_product:
  "seeded s \<Longrightarrow> findByVendorIdAndPath (productRepository (processX402Request testDecode))
     (vendorId payingInput) (path payingInput) s = (Inr (Some testProduct), s)"
  by (simp add: seeded_def harness_defs scenario_defs)

lemma test_build:
  "buildPaymentRequirements (paymentGateway (processX402Request testDecode))
     \<lparr>scheme = ''exact'', network = product_network testProduct,
      price = product_price testProduct, payTo = evmAddress testVendor,
      maxTimeoutSeconds = Some 60\<rparr> s = (Inr [testRequirements], built s)"
  by (simp add: harness_defs scenario_defs)

lemma paying_parse:
  "parsePaymentHeader (paymentGateway (processX402Request testDecode))
     ''base64(paymentPayload)'' s = (Inr testPaymentPayload, s)"
  by (simp add: harness_defs testDecode_def)

lemma paying_match:
  "findMatchingRequirements (paymentGateway (processX402Request testDecode))
     [testRequirements] testPaymentPayload s = (Inr (Some testRequirements), s)"
  by (simp add: harness_defs scenario_defs)

lemma mock_verify:
  "verifyPayment (paymentGateway (processX402Request testDecode)) paymentPayload r s
     = (Inr (verifyResult s), s)"
  by (simp add: harness_defs)

lemma mock_settle:
  "settlePayment (paymentGateway (processX402Request testDecode)) paymentPayload r s
     = (Inr (settleResult s), s)"
  by (simp add: harness_defs)

lemma harness_deterministic: "deterministic (processX402Request decode) seeded"
  by (simp add: deterministic_def harness_defs seeded_def)

lemma stale_run:
  "run (processX402Request testDecode) staleInput beforeEach =
     (Inr (Payment_required testPaymentRequired),
      [FindById ''vendor-1'' (Inr (Some testVendor)),
       FindByVendorIdAndPath ''vendor-1'' ''weather'' (Inr (Some testProduct)),
       BuildPaymentRequirements
         \<lparr>scheme = ''exact'', network = ''eip155:84532'', price = ''$0.001'',
          payTo = ''0x1234567890123456789012345678901234567890'',
          maxTimeoutSeconds = Some 60\<rparr> (Inr [testRequirements]),
       ParsePaymentHeader ''base64(stalePaymentPayload)'' (Inr stalePaymentPayload),
       FindMatchingRequirements [testRequirements] stalePaymentPayload (Inr None),
       CreatePaymentRequiredResponse [testRequirements] testResourceInfo
         (Inr testPaymentRequired)],
      built beforeEach)"
  by (simp add: exec_defs harness_defs scenario_defs)

lemma paying_run:
  "run (processX402Request testDecode) payingInput beforeEach =
     (Inr (Success (settleResult fresh) testProduct),
      [FindById ''vendor-1'' (Inr (Some testVendor)),
       FindByVendorIdAndPath ''vendor-1'' ''weather'' (Inr (Some testProduct)),
       BuildPaymentRequirements
         \<lparr>scheme = ''exact'', network = ''eip155:84532'', price = ''$0.001'',
          payTo = ''0x1234567890123456789012345678901234567890'',
          maxTimeoutSeconds = Some 60\<rparr> (Inr [testRequirements]),
       ParsePaymentHeader ''base64(paymentPayload)'' (Inr testPaymentPayload),
       FindMatchingRequirements [testRequirements] testPaymentPayload
         (Inr (Some testRequirements)),
       VerifyPayment testPaymentPayload testRequirements (Inr (verifyResult fresh)),
       SettlePayment testPaymentPayload testRequirements (Inr (settleResult fresh))],
      built beforeEach)"
  by (simp add: exec_defs harness_defs scenario_defs)

lemma malformed_run:
  "run (processX402Request testDecode) malformedInput beforeEach =
     (Inl (Thrown ''SyntaxError: Unexpected end of JSON input''),
      [FindById ''vendor-1'' (Inr (Some testVendor)),
       FindByVendorIdAndPath ''vendor-1'' ''weather'' (Inr (Some testProduct)),
       BuildPaymentRequirements
         \<lparr>scheme = ''exact'', network = ''eip155:84532'', price = ''$0.001'',
          payTo = ''0x1234567890123456789012345678901234567890'',
          maxTimeoutSeconds = Some 60\<rparr> (Inr [testRequirements]),
       ParsePaymentHeader ''%%%''
         (Inl (Thrown ''SyntaxError: Unexpected end of JSON input''))],
      built beforeEach)"
  by (simp add: exec_defs harness_defs scenario_defs)

section \<open>Specified behaviour\<close>

text \<open>
  Claim C1. In every invocation of \<open>execute\<close>, \<open>settlePayment\<close> is called at most
  once. A call of \<open>settlePayment\<close> is the last call of the invocation and comes
  directly after \<open>parsePaymentHeader\<close> returned the proof, \<open>findMatchingRequirements\<close>
  returned the matched requirement for that proof, and \<open>verifyPayment\<close> on that
  proof and that requirement returned with \<open>isValid\<close> true; it is called on the same
  proof and requirement. In particular, when a verification returned invalid,
  \<open>settlePayment\<close> is not called in the invocation.
\<close>

theorem settle_once_after_valid_verify:
  assumes "run this input s = (r, calls, s')"
  shows "length (filter is_settlePayment calls) \<le> 1 \<and>
    (\<forall>before c after. calls = before @ c # after \<and> is_settlePayment c \<longrightarrow>
       after = [] \<and>
       (\<exists>earlier header requirements paymentPayload matchingRequirements verifyResponse
           settled.
          before = earlier @
            [ParsePaymentHeader header (Inr paymentPayload),
             FindMatchingRequirements requirements paymentPayload
               (Inr (Some matchingRequirements)),
             VerifyPayment paymentPayload matchingRequirements (Inr verifyResponse)] \<and>
          isValid verifyResponse \<and>
          c = SettlePayment paymentPayload matchingRequirements settled)) \<and>
    (\<forall>paymentPayload matchingRequirements verifyResponse.
       VerifyPayment paymentPayload matchingRequirements (Inr verifyResponse) \<in> set calls \<and>
       \<not> isValid verifyResponse \<longrightarrow> (\<forall>c\<in>set calls. \<not> is_settlePayment c))"
proof -
  from settle_shape [OF assms] show ?thesis
  proof
    assume none: "\<forall>c\<in>set calls. \<not> is_settlePayment c"
    then have "filter is_settlePayment calls = []"
      by (simp add: filter_empty_conv)
    with none show ?thesis by auto
  next
    assume "\<exists>vendor product requirements header paymentPayload matchingRequirements
        verifyResponse settled.
       calls =
         [FindById (vendorId input) (Inr (Some vendor)),
          FindByVendorIdAndPath (vendorId input) (path input) (Inr (Some product)),
          BuildPaymentRequirements
            \<lparr>scheme = ''exact'', network = product_network product,
             price = product_price product, payTo = evmAddress vendor,
             maxTimeoutSeconds = Some 60\<rparr> (Inr requirements),
          ParsePaymentHeader header (Inr paymentPayload),
          FindMatchingRequirements requirements paymentPayload
            (Inr (Some matchingRequirements)),
          VerifyPayment paymentPayload matchingRequirements (Inr verifyResponse),
          SettlePayment paymentPayload matchingRequirements settled] \<and>
       isValid verifyResponse"
    then obtain c1 c2 c3 header paymentPayload requirements matchingRequirements
        verifyResponse settled
      where calls: "calls = [c1, c2, c3,
          ParsePaymentHeader header (Inr paymentPayload),
          FindMatchingRequirements requirements paymentPayload
            (Inr (Some matchingRequirements)),
          VerifyPayment paymentPayload matchingRequirements (Inr verifyResponse),
          SettlePayment paymentPayload matchingRequirements settled]"
        and c1: "\<not> is_settlePayment c1" and c2: "\<not> is_settlePayment c2"
        and c3: "\<not> is_settlePayment c3"
        and no_verify: "\<not> is_verifyPayment c1" "\<not> is_verifyPayment c2"
          "\<not> is_verifyPayment c3"
        and valid: "isValid verifyResponse"
      by fastforce
    have count: "length (filter is_settlePayment calls) \<le> 1"
      by (simp add: calls c1 c2 c3)
    have position: "after = [] \<and> before = [c1, c2, c3] @
            [ParsePaymentHeader header (Inr paymentPayload),
             FindMatchingRequirements requirements paymentPayload
               (Inr (Some matchingRequirements)),
             VerifyPayment paymentPayload matchingRequirements (Inr verifyResponse)] \<and>
          c = SettlePayment paymentPayload matchingRequirements settled"
      if "calls = before @ c # after" "is_settlePayment c" for before c after
      using that c1 c2 c3 unfolding calls
      by (auto simp: append_eq_Cons_conv Cons_eq_append_conv)
    have verified: "isValid v"
      if "VerifyPayment p m (Inr v) \<in> set calls" for p m v
      using that valid no_verify unfolding calls by auto
    show ?thesis
    proof (intro conjI allI impI)
      show "length (filter is_settlePayment calls) \<le> 1" by (rule count)
    next
      fix before c after
      assume "calls = before @ c # after \<and> is_settlePayment c"
      with position [of before c after] show "after = []" by simp
    next
      fix before c after
      assume "calls = before @ c # after \<and> is_settlePayment c"
      with position [of before c after] valid
      show "\<exists>earlier header requirements paymentPayload matchingRequirements verifyResponse
           settled.
          before = earlier @
            [ParsePaymentHeader header (Inr paymentPayload),
             FindMatchingRequirements requirements paymentPayload
               (Inr (Some matchingRequirements)),
             VerifyPayment paymentPayload matchingRequirements (Inr verifyResponse)] \<and>
          isValid verifyResponse \<and>
          c = SettlePayment paymentPayload matchingRequirements settled"
        by blast
    next
      fix p m v
      assume "VerifyPayment p m (Inr v) \<in> set calls \<and> \<not> isValid v"
      with verified [of p m v] show "\<forall>c\<in>set calls. \<not> is_settlePayment c" by simp
    qed
  qed
qed

theorem settle_once_after_valid_verify_witness:
  "fst (run (processX402Request testDecode) payingInput beforeEach) =
     Inr (Success (settleResult fresh) testProduct) \<and>
   length (filter is_settlePayment
     (fst (snd (run (processX402Request testDecode) payingInput beforeEach)))) = 1"
proof -
  from settle_once_after_valid_verify [OF paying_run]
  have "length (filter is_settlePayment
      [FindById ''vendor-1'' (Inr (Some testVendor)),
       FindByVendorIdAndPath ''vendor-1'' ''weather'' (Inr (Some testProduct)),
       BuildPaymentRequirements
         \<lparr>scheme = ''exact'', network = ''eip155:84532'', price = ''$0.001'',
          payTo = ''0x1234567890123456789012345678901234567890'',
          maxTimeoutSeconds = Some 60\<rparr> (Inr [testRequirements]),
       ParsePaymentHeader ''base64(paymentPayload)'' (Inr testPaymentPayload),
       FindMatchingRequirements [testRequirements] testPaymentPayload
         (Inr (Some testRequirements)),
       VerifyPayment testPaymentPayload testRequirements (Inr (verifyResult fresh)),
       SettlePayment testPaymentPayload testRequirements (Inr (settleResult fresh))]) \<le> 1"
    by blast
  then show ?thesis
    by (simp add: paying_run)
qed

text \<open>
  Claim C2. A request carries a payment header; vendor and product resolve; the
  gateway builds the requirements list and decodes the header; the matching is the
  first entry equal to the proof's claimed requirement on scheme and network, and no
  entry of the freshly built list is. Then \<open>execute\<close> returns \<open>payment_required\<close> with
  the challenge that \<open>createPaymentRequiredResponse\<close> made from that freshly built list
  and the resource descriptor of the current product; the requirement claimed by the
  client is passed to no call after the matching.
\<close>

theorem no_match_payment_required:
  assumes header: "truthy (paymentHeader input) = Some header"
    and vendor: "findById (vendorRepository this) (vendorId input) s = (Inr (Some vendor), s1)"
    and product: "findByVendorIdAndPath (productRepository this) (vendorId input) (path input) s1
                    = (Inr (Some product), s2)"
    and build: "buildPaymentRequirements (paymentGateway this)
                  \<lparr>scheme = ''exact'', network = product_network product,
                   price = product_price product, payTo = evmAddress vendor,
                   maxTimeoutSeconds = Some 60\<rparr> s2 = (Inr requirements, s3)"
    and parse: "parsePaymentHeader (paymentGateway this) header s3 = (Inr paymentPayload, s4)"
    and find_first: "findMatchingRequirements (paymentGateway this) requirements paymentPayload s4
                  = (Inr (find (scheme_network_match paymentPayload) requirements), s5)"
    and no_match: "\<forall>r\<in>set requirements.
                     req_scheme r \<noteq> req_scheme (accepted paymentPayload) \<or>
                     req_network r \<noteq> req_network (accepted paymentPayload)"
    and create: "createPaymentRequiredResponse (paymentGateway this) requirements
                   \<lparr>url = resourceUrl input, description = product_description product,
                    mimeType = product_mimeType product\<rparr> s5 = (Inr paymentRequired, s6)"
  shows "run this input s =
       (Inr (Payment_required paymentRequired),
        [FindById (vendorId input) (Inr (Some vendor)),
         FindByVendorIdAndPath (vendorId input) (path input) (Inr (Some product)),
         BuildPaymentRequirements
           \<lparr>scheme = ''exact'', network = product_network product,
            price = product_price product, payTo = evmAddress vendor,
            maxTimeoutSeconds = Some 60\<rparr> (Inr requirements),
         ParsePaymentHeader header (Inr paymentPayload),
         FindMatchingRequirements requirements paymentPayload (Inr None),
         CreatePaymentRequiredResponse requirements
           \<lparr>url = resourceUrl input, description = product_description product,
            mimeType = product_mimeType product\<rparr> (Inr paymentRequired)],
        s6)"
proof -
  have "find (scheme_network_match paymentPayload) requirements = None"
    using no_match by (auto simp: find_None_iff scheme_network_match_def)
  with find_first have "findMatchingRequirements (paymentGateway this) requirements
      paymentPayload s4 = (Inr None, s5)"
    by simp
  with header vendor product build parse create show ?thesis
    by (simp add: exec_defs)
qed

theorem no_match_payment_required_witness:
  "run (processX402Request testDecode) staleInput beforeEach =
     (Inr (Payment_required testPaymentRequired),
      [FindById ''vendor-1'' (Inr (Some testVendor)),
       FindByVendorIdAndPath ''vendor-1'' ''weather'' (Inr (Some testProduct)),
       BuildPaymentRequirements
         \<lparr>scheme = ''exact'', network = ''eip155:84532'', price = ''$0.001'',
          payTo = ''0x1234567890123456789012345678901234567890'',
          maxTimeoutSeconds = Some 60\<rparr> (Inr [testRequirements]),
       ParsePaymentHeader ''base64(stalePaymentPayload)'' (Inr stalePaymentPayload),
       FindMatchingRequirements [testRequirements] stalePaymentPayload (Inr None),
       CreatePaymentRequiredResponse [testRequirements] testResourceInfo
         (Inr testPaymentRequired)],
      built beforeEach)"
proof -
  let ?usecase = "processX402Request testDecode"
  have header: "truthy (paymentHeader staleInput) = Some ''base64(stalePaymentPayload)''"
    by (simp add: scenario_defs)
  have vendor: "findById (vendorRepository ?usecase) (vendorId staleInput) beforeEach
      = (Inr (Some testVendor), beforeEach)"
    by (simp add: harness_defs scenario_defs)
  have product: "findByVendorIdAndPath (productRepository ?usecase) (vendorId staleInput)
      (path staleInput) beforeEach = (Inr (Some testProduct), beforeEach)"
    by (simp add: harness_defs scenario_defs)
  have build: "buildPaymentRequirements (paymentGateway ?usecase)
      \<lparr>scheme = ''exact'', network = product_network testProduct,
       price = product_price testProduct, payTo = evmAddress testVendor,
       maxTimeoutSeconds = Some 60\<rparr> beforeEach = (Inr [testRequirements], built beforeEach)"
    by (simp add: harness_defs scenario_defs)
  have parse: "parsePaymentHeader (paymentGateway ?usecase) ''base64(stalePaymentPayload)''
      (built beforeEach) = (Inr stalePaymentPayload, built beforeEach)"
    by (simp add: harness_defs testDecode_def)
  have find_first: "findMatchingRequirements (paymentGateway ?usecase) [testRequirements]
      stalePaymentPayload (built beforeEach)
      = (Inr (find (scheme_network_match stalePaymentPayload) [testRequirements]),
         built beforeEach)"
    by (simp add: harness_defs)
  have no_match: "\<forall>r\<in>set [testRequirements].
      req_scheme r \<noteq> req_scheme (accepted stalePaymentPayload) \<or>
      req_network r \<noteq> req_network (accepted stalePaymentPayload)"
    by (simp add: scenario_defs)
  have create: "createPaymentRequiredResponse (paymentGateway ?usecase) [testRequirements]
      \<lparr>url = resourceUrl staleInput, description = product_description testProduct,
       mimeType = product_mimeType testProduct\<rparr> (built beforeEach)
      = (Inr testPaymentRequired, built beforeEach)"
    by (simp add: harness_defs scenario_defs)
  from no_match_payment_required
    [OF header vendor product build parse find_first no_match create]
  show ?thesis
    by (simp add: scenario_defs)
qed

text \<open>
  Claim C3, as stated: a malformed payment proof is turned into one of the five
  outcomes and \<open>execute\<close> does not throw. With the collaborators of the test suite
  and a header that \<open>JSON.parse\<close> rejects, \<open>execute\<close> throws the \<open>SyntaxError\<close>.
\<close>

theorem malformed_proof_counterexample:
  "fst (run (processX402Request testDecode) malformedInput beforeEach) =
     Inl (Thrown ''SyntaxError: Unexpected end of JSON input'')"
  by (simp add: exec_defs harness_defs scenario_defs)

text \<open>
  Claim C3, amended. \<open>execute\<close> returns one of the five outcomes whenever none of
  its collaborator calls throws. An exception thrown by a collaborator is not caught:
  the throwing call is the last call and \<open>execute\<close> throws the same exception. In
  particular, when \<open>parsePaymentHeader\<close> throws on a malformed proof, \<open>execute\<close>
  throws that decode error, and neither \<open>verifyPayment\<close> nor \<open>settlePayment\<close> is
  called.
\<close>

theorem throws_exactly_when_collaborator_throws:
  assumes "run this input s = (r, calls, s')"
  shows "((\<forall>c\<in>set calls. threw c = None) \<longrightarrow> (\<exists>outcome. r = Inr outcome)) \<and>
    (\<forall>c\<in>set calls. \<forall>e. threw c = Some e \<longrightarrow> r = Inl e \<and> c = last calls) \<and>
    (\<forall>header e. ParsePaymentHeader header (Inl e) \<in> set calls \<longrightarrow>
       r = Inl e \<and> (\<forall>c\<in>set calls. \<not> is_verifyPayment c \<and> \<not> is_settlePayment c))"
  using assms unfolding exec_defs
  by (auto split: prod.splits sum.splits option.splits if_splits)

theorem throws_exactly_when_collaborator_throws_witness:
  "threw (last (fst (snd (run (processX402Request testDecode) malformedInput beforeEach)))) =
     Some (Thrown ''SyntaxError: Unexpected end of JSON input'') \<and>
   fst (run (processX402Request testDecode) malformedInput beforeEach) =
     Inl (Thrown ''SyntaxError: Unexpected end of JSON input'')"
proof -
  have "ParsePaymentHeader ''%%%'' (Inl (Thrown ''SyntaxError: Unexpected end of JSON input''))
      \<in> set [FindById ''vendor-1'' (Inr (Some testVendor)),
       FindByVendorIdAndPath ''vendor-1'' ''weather'' (Inr (Some testProduct)),
       BuildPaymentRequirements
         \<lparr>scheme = ''exact'', network = ''eip155:84532'', price = ''$0.001'',
          payTo = ''0x1234567890123456789012345678901234567890'',
          maxTimeoutSeconds = Some 60\<rparr> (Inr [testRequirements]),
       ParsePaymentHeader ''%%%''
         (Inl (Thrown ''SyntaxError: Unexpected end of JSON input''))]"
    by simp
  with throws_exactly_when_collaborator_throws [OF malformed_run]
  have "(Inl (Thrown ''SyntaxError: Unexpected end of JSON input'')
           :: thrown + ProcessX402Result)
      = Inl (Thrown ''SyntaxError: Unexpected end of JSON input'')"
    by blast
  then show ?thesis
    by (simp add: malformed_run)
qed

text \<open>
  Claim C4. When the vendor lookup returns no vendor, \<open>execute\<close> returns \<open>not_found\<close>
  with reason "Vendor not found" after that single call, whatever the path is: the
  product lookup is not made. When the vendor is found and the lookup of
  (vendorId, path) returns no product, it returns \<open>not_found\<close> with reason
  "Product not found", the vendor lookup being the first call and the product lookup
  the second.
\<close>

theorem vendor_checked_before_product:
  "(findById (vendorRepository this) (vendorId input) s = (Inr None, s1) \<longrightarrow>
      run this input s =
        (Inr (Not_found ''Vendor not found''),
         [FindById (vendorId input) (Inr None)], s1)) \<and>
   (findById (vendorRepository this) (vendorId input) s = (Inr (Some vendor), s1) \<and>
    findByVendorIdAndPath (productRepository this) (vendorId input) (path input) s1
      = (Inr None, s2) \<longrightarrow>
      run this input s =
        (Inr (Not_found ''Product not found''),
         [FindById (vendorId input) (Inr (Some vendor)),
          FindByVendorIdAndPath (vendorId input) (path input) (Inr None)], s2))"
  by (simp add: exec_defs)

theorem vendor_checked_before_product_witness:
  "run (processX402Request testDecode)
     (testInput\<lparr>vendorId := ''non-existent''\<rparr>) beforeEach =
     (Inr (Not_found ''Vendor not found''), [FindById ''non-existent'' (Inr None)], beforeEach) \<and>
   run (processX402Request testDecode)
     (testInput\<lparr>path := ''non-existent''\<rparr>) beforeEach =
     (Inr (Not_found ''Product not found''),
      [FindById ''vendor-1'' (Inr (Some testVendor)),
       FindByVendorIdAndPath ''vendor-1'' ''non-existent'' (Inr None)], beforeEach)"
proof -
  have v: "findById (vendorRepository (processX402Request testDecode))
      (vendorId (testInput\<lparr>vendorId := ''non-existent''\<rparr>)) beforeEach = (Inr None, beforeEach)"
    by (simp add: harness_defs scenario_defs)
  have p: "findById (vendorRepository (processX402Request testDecode))
      (vendorId (testInput\<lparr>path := ''non-existent''\<rparr>)) beforeEach
        = (Inr (Some testVendor), beforeEach) \<and>
    findByVendorIdAndPath (productRepository (processX402Request testDecode))
      (vendorId (testInput\<lparr>path := ''non-existent''\<rparr>))
      (path (testInput\<lparr>path := ''non-existent''\<rparr>)) beforeEach = (Inr None, beforeEach)"
    by (simp add: harness_defs scenario_defs)
  from v p
    vendor_checked_before_product [of "processX402Request testDecode"
      "testInput\<lparr>vendorId := ''non-existent''\<rparr>" beforeEach beforeEach]
    vendor_checked_before_product [of "processX402Request testDecode"
      "testInput\<lparr>path := ''non-existent''\<rparr>" beforeEach beforeEach testVendor beforeEach]
  show ?thesis by (simp add: testInput_def)
qed

text \<open>
  Claim C5. A request carries no payment proof (no header, or the empty one) and its
  vendor and product resolve; the payment gateway is the one of the test suite. Then
  \<open>execute\<close> returns \<open>payment_required\<close>; the request passed to
  \<open>buildPaymentRequirements\<close> has scheme "exact", the product's network, the product's
  price, the vendor's payout address and the timeout 60; the challenge is made from
  the list that call returned, and its first requirement's payee is the vendor's
  payout address.
\<close>

theorem no_proof_payment_required:
  assumes header: "truthy (paymentHeader input) = None"
    and vendor: "findById (vendorRepository this) (vendorId input) s = (Inr (Some vendor), s1)"
    and product: "findByVendorIdAndPath (productRepository this) (vendorId input) (path input) s1
                    = (Inr (Some product), s2)"
    and gateway: "paymentGateway this = MockPaymentGateway decode"
  shows "\<exists>paymentRequired s'.
     run this input s =
       (Inr (Payment_required paymentRequired),
        [FindById (vendorId input) (Inr (Some vendor)),
         FindByVendorIdAndPath (vendorId input) (path input) (Inr (Some product)),
         BuildPaymentRequirements
           \<lparr>scheme = ''exact'', network = product_network product,
            price = product_price product, payTo = evmAddress vendor,
            maxTimeoutSeconds = Some 60\<rparr>
           (Inr (accepts paymentRequired)),
         CreatePaymentRequiredResponse (accepts paymentRequired)
           \<lparr>url = resourceUrl input, description = product_description product,
            mimeType = product_mimeType product\<rparr>
           (Inr paymentRequired)],
        s') \<and>
     accepts paymentRequired \<noteq> [] \<and>
     req_payTo (hd (accepts paymentRequired)) = evmAddress vendor"
  using header vendor product
  by (simp add: exec_defs gateway MockPaymentGateway_def
      MockPaymentGateway_buildPaymentRequirements_def
      MockPaymentGateway_createPaymentRequiredResponse_def)

theorem no_proof_payment_required_witness:
  "fst (run (processX402Request testDecode) testInput beforeEach) =
     Inr (Payment_required
       \<lparr>x402Version = 2, accepts = [testRequirements],
        resource = \<lparr>url = ''http://localhost:3000/vendor1/weather'',
                    description = ''Weather API'', mimeType = ''application/json''\<rparr>\<rparr>) \<and>
   req_payTo testRequirements = evmAddress testVendor"
proof -
  have header: "truthy (paymentHeader testInput) = None"
    by (simp add: testInput_def)
  have vendor: "findById (vendorRepository (processX402Request testDecode))
      (vendorId testInput) beforeEach = (Inr (Some testVendor), beforeEach)"
    by (simp add: harness_defs scenario_defs)
  have product: "findByVendorIdAndPath (productRepository (processX402Request testDecode))
      (vendorId testInput) (path testInput) beforeEach = (Inr (Some testProduct), beforeEach)"
    by (simp add: harness_defs scenario_defs)
  have gateway: "paymentGateway (processX402Request testDecode) = MockPaymentGateway testDecode"
    by (simp add: processX402Request_def)
  from no_proof_payment_required [OF header vendor product gateway]
  obtain paymentRequired s' where
    r: "run (processX402Request testDecode) testInput beforeEach =
       (Inr (Payment_required paymentRequired),
        [FindById (vendorId testInput) (Inr (Some testVendor)),
         FindByVendorIdAndPath (vendorId testInput) (path testInput) (Inr (Some testProduct)),
         BuildPaymentRequirements
           \<lparr>scheme = ''exact'', network = product_network testProduct,
            price = product_price testProduct, payTo = evmAddress testVendor,
            maxTimeoutSeconds = Some 60\<rparr>
           (Inr (accepts paymentRequired)),
         CreatePaymentRequiredResponse (accepts paymentRequired)
           \<lparr>url = resourceUrl testInput, description = product_description testProduct,
            mimeType = product_mimeType testProduct\<rparr>
           (Inr paymentRequired)],
        s')"
    and "req_payTo (hd (accepts paymentRequired)) = evmAddress testVendor"
    by blast
  then show ?thesis
    by (simp add: exec_defs harness_defs scenario_defs)
qed

text \<open>
  Claim C6. On a matched proof for which \<open>verifyPayment\<close> returns invalid, \<open>execute\<close>
  returns \<open>verification_failed\<close>; the reason is the gateway's \<open>invalidReason\<close> when
  there is one and "Unknown verification error" otherwise; the verification is the
  last call of the invocation.
\<close>

theorem invalid_verification_failed:
  assumes header: "truthy (paymentHeader input) = Some header"
    and vendor: "findById (vendorRepository this) (vendorId input) s = (Inr (Some vendor), s1)"
    and product: "findByVendorIdAndPath (productRepository this) (vendorId input) (path input) s1
                    = (Inr (Some product), s2)"
    and build: "buildPaymentRequirements (paymentGateway this)
                  \<lparr>scheme = ''exact'', network = product_network product,
                   price = product_price product, payTo = evmAddress vendor,
                   maxTimeoutSeconds = Some 60\<rparr> s2 = (Inr requirements, s3)"
    and parse: "parsePaymentHeader (paymentGateway this) header s3 = (Inr paymentPayload, s4)"
    and matched: "findMatchingRequirements (paymentGateway this) requirements paymentPayload s4
                    = (Inr (Some matchingRequirements), s5)"
    and verify: "verifyPayment (paymentGateway this) paymentPayload matchingRequirements s5
                   = (Inr verifyResponse, s6)"
    and invalid: "\<not> isValid verifyResponse"
  shows "run this input s =
       (Inr (Verification_failed
          (case invalidReason verifyResponse of
             None \<Rightarrow> ''Unknown verification error'' | Some reason \<Rightarrow> reason)),
        [FindById (vendorId input) (Inr (Some vendor)),
         FindByVendorIdAndPath (vendorId input) (path input) (Inr (Some product)),
         BuildPaymentRequirements
           \<lparr>scheme = ''exact'', network = product_network product,
            price = product_price product, payTo = evmAddress vendor,
            maxTimeoutSeconds = Some 60\<rparr> (Inr requirements),
         ParsePaymentHeader header (Inr paymentPayload),
         FindMatchingRequirements requirements paymentPayload (Inr (Some matchingRequirements)),
         VerifyPayment paymentPayload matchingRequirements (Inr verifyResponse)],
        s6)"
  using assms by (simp add: exec_defs)

theorem invalid_verification_failed_witness:
  "fst (run (processX402Request testDecode) payingInput
          (beforeEach\<lparr>verifyResult := invalidSignature\<rparr>))
     = Inr (Verification_failed ''Invalid signature'')"
proof -
  let ?s = "beforeEach\<lparr>verifyResult := invalidSignature\<rparr>"
  have invalid: "\<not> isValid (verifyResult (built ?s))"
    by (simp add: built_def invalidSignature_def)
  from invalid_verification_failed [OF paying_header paying_vendor [OF seeded_scenarios(2)]
      paying_product [OF seeded_scenarios(2)] test_build paying_parse paying_match
      mock_verify invalid]
  show ?thesis
    by (simp add: built_def invalidSignature_def)
qed

text \<open>
  Claim C7. On a matched and verified proof for which \<open>settlePayment\<close> returns
  failure, \<open>execute\<close> returns \<open>settlement_failed\<close>; the reason is the gateway's
  \<open>errorReason\<close> when there is one and "Unknown settlement error" otherwise. The
  outcome hands no product to the caller: only a \<open>success\<close> outcome contains one.
\<close>

theorem settlement_failed_withholds_product:
  assumes header: "truthy (paymentHeader input) = Some header"
    and vendor: "findById (vendorRepository this) (vendorId input) s = (Inr (Some vendor), s1)"
    and product: "findByVendorIdAndPath (productRepository this) (vendorId input) (path input) s1
                    = (Inr (Some product), s2)"
    and build: "buildPaymentRequirements (paymentGateway this)
                  \<lparr>scheme = ''exact'', network = product_network product,
                   price = product_price product, payTo = evmAddress vendor,
                   maxTimeoutSeconds = Some 60\<rparr> s2 = (Inr requirements, s3)"
    and parse: "parsePaymentHeader (paymentGateway this) header s3 = (Inr paymentPayload, s4)"
    and matched: "findMatchingRequirements (paymentGateway this) requirements paymentPayload s4
                    = (Inr (Some matchingRequirements), s5)"
    and verify: "verifyPayment (paymentGateway this) paymentPayload matchingRequirements s5
                   = (Inr verifyResponse, s6)"
    and valid: "isValid verifyResponse"
    and settle: "settlePayment (paymentGateway this) paymentPayload matchingRequirements s6
                   = (Inr settleResponse, s7)"
    and failure: "\<not> success settleResponse"
  shows "\<exists>outcome.
       run this input s =
         (Inr outcome,
          [FindById (vendorId input) (Inr (Some vendor)),
           FindByVendorIdAndPath (vendorId input) (path input) (Inr (Some product)),
           BuildPaymentRequirements
             \<lparr>scheme = ''exact'', network = product_network product,
              price = product_price product, payTo = evmAddress vendor,
              maxTimeoutSeconds = Some 60\<rparr> (Inr requirements),
           ParsePaymentHeader header (Inr paymentPayload),
           FindMatchingRequirements requirements paymentPayload
             (Inr (Some matchingRequirements)),
           VerifyPayment paymentPayload matchingRequirements (Inr verifyResponse),
           SettlePayment paymentPayload matchingRequirements (Inr settleResponse)],
          s7) \<and>
       outcome = Settlement_failed
          (case errorReason settleResponse of
             None \<Rightarrow> ''Unknown settlement error'' | Some reason \<Rightarrow> reason) \<and>
       released_product outcome = None \<and>
       (\<forall>other product'. released_product other = Some product' \<longrightarrow>
          type_of other = ''success'')"
proof -
  have only_success: "type_of other = ''success''"
    if "released_product other = Some product'" for other product'
    using that by (cases other) simp_all
  from assms show ?thesis
    by (simp add: exec_defs only_success)
qed

theorem settlement_failed_withholds_product_witness:
  "fst (run (processX402Request testDecode) payingInput
          (beforeEach\<lparr>settleResult := insufficientFunds\<rparr>))
     = Inr (Settlement_failed ''Insufficient funds'')"
proof -
  let ?s = "beforeEach\<lparr>settleResult := insufficientFunds\<rparr>"
  have valid: "isValid (verifyResult (built ?s))"
    by (simp add: scenario_defs)
  have failure: "\<not> success (settleResult (built ?s))"
    by (simp add: built_def insufficientFunds_def)
  from settlement_failed_withholds_product [OF paying_header paying_vendor [OF seeded_scenarios(3)]
      paying_product [OF seeded_scenarios(3)] test_build paying_parse paying_match
      mock_verify valid mock_settle failure]
  show ?thesis
    by (auto simp: built_def insufficientFunds_def)
qed

text \<open>
  Claim C8. On a matched and verified proof for which \<open>settlePayment\<close> returns
  success, \<open>execute\<close> returns \<open>success\<close> with the very response that \<open>settlePayment\<close>
  returned and the very product that the catalog returned for (vendorId, path), its
  content included.
\<close>

theorem settled_success_releases_product:
  assumes header: "truthy (paymentHeader input) = Some header"
    and vendor: "findById (vendorRepository this) (vendorId input) s = (Inr (Some vendor), s1)"
    and product: "findByVendorIdAndPath (productRepository this) (vendorId input) (path input) s1
                    = (Inr (Some product), s2)"
    and build: "buildPaymentRequirements (paymentGateway this)
                  \<lparr>scheme = ''exact'', network = product_network product,
                   price = product_price product, payTo = evmAddress vendor,
                   maxTimeoutSeconds = Some 60\<rparr> s2 = (Inr requirements, s3)"
    and parse: "parsePaymentHeader (paymentGateway this) header s3 = (Inr paymentPayload, s4)"
    and matched: "findMatchingRequirements (paymentGateway this) requirements paymentPayload s4
                    = (Inr (Some matchingRequirements), s5)"
    and verify: "verifyPayment (paymentGateway this) paymentPayload matchingRequirements s5
                   = (Inr verifyResponse, s6)"
    and valid: "isValid verifyResponse"
    and settle: "settlePayment (paymentGateway this) paymentPayload matchingRequirements s6
                   = (Inr settleResponse, s7)"
    and settled: "success settleResponse"
  shows "run this input s =
       (Inr (Success settleResponse product),
        [FindById (vendorId input) (Inr (Some vendor)),
         FindByVendorIdAndPath (vendorId input) (path input) (Inr (Some product)),
         BuildPaymentRequirements
           \<lparr>scheme = ''exact'', network = product_network product,
            price = product_price product, payTo = evmAddress vendor,
            maxTimeoutSeconds = Some 60\<rparr> (Inr requirements),
         ParsePaymentHeader header (Inr paymentPayload),
         FindMatchingRequirements requirements paymentPayload (Inr (Some matchingRequirements)),
         VerifyPayment paymentPayload matchingRequirements (Inr verifyResponse),
         SettlePayment paymentPayload matchingRequirements (Inr settleResponse)],
        s7)"
  using assms by (simp add: exec_defs)

theorem settled_success_releases_product_witness:
  "fst (run (processX402Request testDecode) payingInput beforeEach)
     = Inr (Success (settleResult fresh) testProduct) \<and>
   product_data testProduct = ''{\"weather\":\"sunny\",\"temp\":25}''"
proof -
  have valid: "isValid (verifyResult (built beforeEach))"
    by (simp add: scenario_defs)
  have settled: "success (settleResult (built beforeEach))"
    by (simp add: scenario_defs)
  from settled_success_releases_product [OF paying_header paying_vendor [OF seeded_scenarios(1)]
      paying_product [OF seeded_scenarios(1)] test_build paying_parse paying_match
      mock_verify valid mock_settle settled]
  show ?thesis
    by (simp add: scenario_defs)
qed

text \<open>
  Claim C9. The lookup, build, decode and match operations of the collaborators are
  deterministic on the states \<open>I\<close>, and \<open>execute\<close> is invoked in a state of \<open>I\<close> and
  returns \<open>not_found\<close> or \<open>payment_required\<close> (the outcomes of the not-found, no-proof
  and no-match paths). Then a second invocation with the same input, made in the
  state the first one left, returns the same outcome, hence the same
  classification, after the same calls; and the first invocation called neither
  \<open>verifyPayment\<close> nor \<open>settlePayment\<close>.
\<close>

theorem repeated_unpaid_request_same_outcome:
  assumes det: "deterministic this I" and start: "I s"
    and first: "run this input s = (Inr outcome, calls, s1)"
    and unpaid: "type_of outcome = ''not_found'' \<or> type_of outcome = ''payment_required''"
  shows "(\<exists>outcome' calls' s2. run this input s1 = (Inr outcome', calls', s2) \<and>
            type_of outcome' = type_of outcome \<and> outcome' = outcome \<and> calls' = calls) \<and>
         (\<forall>c\<in>set calls. \<not> is_verifyPayment c \<and> \<not> is_settlePayment c)"
proof -
  from unpaid_replay [OF det start start first unpaid] have s1: "I s1" by simp
  from unpaid_replay [OF det start s1 first unpaid]
  obtain s2 where "run this input s1 = (Inr outcome, calls, s2)" by blast
  with unpaid_calls [OF first unpaid] show ?thesis by simp
qed

theorem repeated_unpaid_request_same_outcome_witness:
  "type_of (Payment_required testPaymentRequired) = ''payment_required'' \<and>
   fst (run (processX402Request testDecode) staleInput (built beforeEach)) =
     Inr (Payment_required testPaymentRequired)"
proof -
  have unpaid: "type_of (Payment_required testPaymentRequired) = ''not_found'' \<or>
      type_of (Payment_required testPaymentRequired) = ''payment_required''"
    by simp
  from repeated_unpaid_request_same_outcome
    [OF harness_deterministic seeded_scenarios(1) stale_run unpaid]
  show ?thesis
    by auto
qed

text \<open>
  Claim C10. A request whose \<open>paymentHeader\<close> is the empty string runs exactly as the
  same request without a header: same result, same calls, same final state. No call
  of \<open>parsePaymentHeader\<close>, \<open>findMatchingRequirements\<close>, \<open>verifyPayment\<close> or
  \<open>settlePayment\<close> is made, so no decode error can arise; an outcome is
  \<open>payment_required\<close> or \<open>not_found\<close>, and it is \<open>payment_required\<close> when vendor and
  product resolve and no call throws.
\<close>

theorem empty_header_is_absent:
  assumes empty: "paymentHeader input = Some []"
    and result: "run this input s = (r, calls, s')"
  shows "run this (input\<lparr>paymentHeader := None\<rparr>) s = (r, calls, s') \<and>
    (\<forall>c\<in>set calls. \<not> is_parsePaymentHeader c \<and> \<not> is_findMatchingRequirements c \<and>
       \<not> is_verifyPayment c \<and> \<not> is_settlePayment c) \<and>
    (\<forall>outcome. r = Inr outcome \<longrightarrow>
       type_of outcome = ''payment_required'' \<or> type_of outcome = ''not_found'') \<and>
    (\<forall>vendor product.
       FindById (vendorId input) (Inr (Some vendor)) \<in> set calls \<and>
       FindByVendorIdAndPath (vendorId input) (path input) (Inr (Some product)) \<in> set calls \<and>
       (\<forall>c\<in>set calls. threw c = None) \<longrightarrow>
       (\<exists>paymentRequired. r = Inr (Payment_required paymentRequired)))"
  using assms unfolding exec_defs
  by (auto split: prod.splits sum.splits option.splits if_splits)

theorem empty_header_is_absent_witness:
  "run (processX402Request testDecode) (testInput\<lparr>paymentHeader := Some []\<rparr>) beforeEach =
     run (processX402Request testDecode) testInput beforeEach \<and>
   fst (run (processX402Request testDecode) (testInput\<lparr>paymentHeader := Some []\<rparr>) beforeEach) =
     Inr (Payment_required testPaymentRequired)"
proof -
  let ?input = "testInput\<lparr>paymentHeader := Some []\<rparr>"
  let ?run = "run (processX402Request testDecode) ?input beforeEach"
  have empty: "paymentHeader ?input = Some []"
    by simp
  have result: "?run = (fst ?run, fst (snd ?run), snd (snd ?run))"
    by simp
  have absent: "?input\<lparr>paymentHeader := None\<rparr> = testInput"
    by (simp add: testInput_def)
  have evaluated: "fst ?run = Inr (Payment_required testPaymentRequired)"
    by (simp add: exec_defs harness_defs scenario_defs)
  from empty_header_is_absent [OF empty result]
  have "run (processX402Request testDecode) (?input\<lparr>paymentHeader := None\<rparr>) beforeEach
      = (fst ?run, fst (snd ?run), snd (snd ?run))"
    by blast
  then have "run (processX402Request testDecode) (?input\<lparr>paymentHeader := None\<rparr>) beforeEach
      = ?run"
    by simp
  then have "run (processX402Request testDecode) testInput beforeEach = ?run"
    by (simp only: absent)
  with evaluated show ?thesis
    by simp
qed

end
